theory Spec2Isabelle
  imports Main
begin

section \<open>create-typed-env: the typed accessor over an environment store\<close>

text \<open>
  The development embeds \<^verbatim>\<open>createTypedEnv\<close>, the current revision of the accessor
  (the older \<^verbatim>\<open>createEnv\<close> revisions kept beside it are not modelled).

  Modelling decisions.
  \<^item> A JavaScript object used as a dictionary (\<^verbatim>\<open>process.env\<close>, the \<^verbatim>\<open>env\<close>
    option, a \<^verbatim>\<open>Record<string, string>\<close> fallback, a \<^verbatim>\<open>NodeEnvs\<close> object) is the map
    of its own string-keyed data properties, and it inherits the twelve members of the
    standard \<^verbatim>\<open>Object.prototype\<close>: \<^verbatim>\<open>key in obj\<close> and \<^verbatim>\<open>obj[key]\<close> find an own
    property first and an inherited member next. Objects without a prototype, with
    accessor properties or behind a proxy, and a patched \<^verbatim>\<open>Object.prototype\<close>, are not
    modelled.
  \<^item> \<^verbatim>\<open>process.env\<close> and the object passed as \<^verbatim>\<open>options.env\<close> are objects on a
    heap, addressed by references: the handle keeps a reference and never copies, and the
    fallback walk reads \<^verbatim>\<open>process.env\<close> whatever store the handle was built over.
    \<^verbatim>\<open>process.env\<close> is the one of Node.js on a POSIX system: an assignment goes to
    \<^verbatim>\<open>setenv\<close> as C strings. Reads of \<^verbatim>\<open>process.env\<close> are modelled for well-formed
    variable names (not empty, without \<^verbatim>\<open>=\<close> and without a NUL character) only; for
    other names \<^verbatim>\<open>getenv\<close> differs between C libraries.
  \<^item> \<^verbatim>\<open>throw new Error(...)\<close> is a value of type \<open>error\<close>, one constructor for each
    throw site of the library; \<open>message\<close> gives the text of the error. \<open>Thrown\<close> is an
    exception the library does not create: one thrown by a fallback function, or a
    \<^verbatim>\<open>TypeError\<close> raised by the engine.
  \<^item> A fallback function is user code: it is called with the key, it may read and write
    the heap, and it returns a string or throws.
  \<^item> The two effects that leave the closure, \<^verbatim>\<open>console.warn(message)\<close> and the call of
    a fallback function, are recorded as a list of events in the order they happen. The
    console has no access to the heap.
\<close>

subsection \<open>Data\<close>

type_synonym store = "string \<rightharpoonup> string"

datatype ref = ProcessEnv | Obj nat

type_synonym heap = "ref \<Rightarrow> store"

text \<open>JavaScript values, as far as the code can tell them apart. \<open>JObject r\<close> is an object
  other than \<^verbatim>\<open>null\<close> that the model does not look into, given by the text \<open>r\<close> that a
  template literal prints for it. \<open>JMember name\<close> is the value of
  \<^verbatim>\<open>Object.prototype[name]\<close> as an ordinary object inherits it: a built-in function, and
  for \<^verbatim>\<open>__proto__\<close> the object \<^verbatim>\<open>Object.prototype\<close> itself.\<close>

datatype js_value =
    JString string
  | JNumber int
  | JBoolean bool
  | JUndefined
  | JNull
  | JObject string
  | JMember string

fun typeof :: "js_value \<Rightarrow> string" where
  "typeof (JString s) = ''string''"
| "typeof (JNumber n) = ''number''"
| "typeof (JBoolean b) = ''boolean''"
| "typeof JUndefined = ''undefined''"
| "typeof JNull = ''object''"
| "typeof (JObject r) = ''object''"
| "typeof (JMember name) = (if name = ''__proto__'' then ''object'' else ''function'')"

text \<open>\<^verbatim>\<open>if (value)\<close>\<close>

fun truthy :: "js_value \<Rightarrow> bool" where
  "truthy (JString s) = (s \<noteq> [])"
| "truthy (JNumber n) = (n \<noteq> 0)"
| "truthy (JBoolean b) = b"
| "truthy JUndefined = False"
| "truthy JNull = False"
| "truthy (JObject r) = True"
| "truthy (JMember name) = True"

text \<open>\<^verbatim>\<open>`${value}`\<close>, for the values that reach a template literal of the code: strings,
  \<^verbatim>\<open>undefined\<close>, \<^verbatim>\<open>null\<close>, booleans and the objects the model does not look into.\<close>

fun template :: "js_value \<Rightarrow> string" where
  "template (JString s) = s"
| "template (JBoolean b) = (if b then ''true'' else ''false'')"
| "template JUndefined = ''undefined''"
| "template JNull = ''null''"
| "template (JObject r) = r"

datatype error =
    NotFound string
  | InvalidFallbackValue string
  | InvalidFallback string
  | TypeCheck string
  | InvalidAccessMode string
  | Thrown string

fun message :: "error \<Rightarrow> string" where
  "message (NotFound key) = ''Environment variable '' @ key @ '' not found''"
| "message (InvalidFallbackValue shown) = ''Invalid fallback value: '' @ shown"
| "message (InvalidFallback key) = ''Invalid fallback value for environment variable '' @ key"
| "message (TypeCheck prop) =
     ''Environment variables must be strings. Attempted to set '' @ prop @ '' to non-string.''"
| "message (InvalidAccessMode prop) =
     ''Attempted to set lazy environment variable '' @ prop
       @ '' via assignment. Use the function call env.'' @ prop @ ''('' @ [CHR 0x27]
       @ ''value'' @ [CHR 0x27] @ '') instead.''"

text \<open>\<^verbatim>\<open>(key: string) => string\<close>, as user code: the call takes the heap and gives it
  back, possibly changed, with the string returned or the exception thrown.\<close>

type_synonym callback = "string \<Rightarrow> heap \<Rightarrow> (error + string) \<times> heap"

text \<open>\<^verbatim>\<open>type FallbackValue = string | Record<string, string> | ((key: string) => string)\<close>\<close>

datatype fallback_value =
    FString string
  | FRecord store
  | FFunction callback

text \<open>\<^verbatim>\<open>type NodeEnvs<TValue> = { development?: TValue; test?: TValue; production?: TValue }\<close>\<close>

record 'a node_envs =
  development :: "'a option"
  test :: "'a option"
  production :: "'a option"

text \<open>\<^verbatim>\<open>type Fallback = FallbackValue | { env: NodeEnvs<FallbackValue> }\<close>\<close>

datatype fallback =
    Plain fallback_value
  | PerEnv "fallback_value node_envs"

text \<open>\<^verbatim>\<open>type Log = boolean | NodeEnvs<boolean>\<close>\<close>

datatype log_policy =
    LogBoolean bool
  | LogEnvs "bool node_envs"

text \<open>\<^verbatim>\<open>CreateEnvOptions\<close>: every field is optional, \<open>None\<close> is \<^verbatim>\<open>undefined\<close>.\<close>

record options =
  env :: "ref option"
  lazy :: "bool option"
  fallback :: "fallback option"
  log :: "log_policy option"

datatype event =
    Warn string
  | FallbackCall string

subsection \<open>Objects and their prototype\<close>

text \<open>The own property names of the standard \<^verbatim>\<open>Object.prototype\<close>.\<close>

definition object_prototype :: "string list" where
  "object_prototype =
     [''constructor'', ''__defineGetter__'', ''__defineSetter__'', ''hasOwnProperty'',
      ''__lookupGetter__'', ''__lookupSetter__'', ''isPrototypeOf'',
      ''propertyIsEnumerable'', ''toString'', ''valueOf'', ''__proto__'',
      ''toLocaleString'']"

definition inherited :: "string \<Rightarrow> bool" where
  "inherited name = (name \<in> set object_prototype)"

text \<open>\<^verbatim>\<open>key in obj\<close> and \<^verbatim>\<open>obj[key]\<close> on a store.\<close>

definition has_property :: "store \<Rightarrow> string \<Rightarrow> bool" where
  "has_property s key = (case s key of Some v \<Rightarrow> True | None \<Rightarrow> inherited key)"

definition read_property :: "store \<Rightarrow> string \<Rightarrow> js_value" where
  "read_property s key =
     (case s key of
        Some v \<Rightarrow> JString v
      | None \<Rightarrow> if inherited key then JMember key else JUndefined)"

text \<open>\<^verbatim>\<open>envs[name]\<close> on a \<^verbatim>\<open>NodeEnvs\<close> object, where \<^verbatim>\<open>name\<close> is the value of a
  \<^verbatim>\<open>NODE_ENV\<close> field (\<open>None\<close> when the field is missing: the property
  \<^verbatim>\<open>"undefined"\<close> is then read, which no object of the model has). The result is an own
  field, an inherited member or \<^verbatim>\<open>undefined\<close>.\<close>

datatype 'a looked = Own 'a | Inherited string | Missing

fun own_field :: "'a node_envs \<Rightarrow> string \<Rightarrow> 'a option" where
  "own_field envs name =
     (if name = ''development'' then development envs
      else if name = ''test'' then test envs
      else if name = ''production'' then production envs
      else None)"

fun index_envs :: "'a node_envs \<Rightarrow> string option \<Rightarrow> 'a looked" where
  "index_envs envs None = Missing"
| "index_envs envs (Some name) =
     (case own_field envs name of
        Some x \<Rightarrow> Own x
      | None \<Rightarrow> if inherited name then Inherited name else Missing)"

text \<open>A built-in function member of \<^verbatim>\<open>Object.prototype\<close> called as \<^verbatim>\<open>member(key)\<close>, with
  no receiver and a string argument: \<^verbatim>\<open>toString\<close> gives \<^verbatim>\<open>[object Undefined]\<close>,
  \<^verbatim>\<open>constructor\<close> (the function \<^verbatim>\<open>Object\<close>) wraps the string in a \<^verbatim>\<open>String\<close> object,
  which prints as the string, \<^verbatim>\<open>isPrototypeOf\<close> gives \<^verbatim>\<open>false\<close> for an argument that is
  not an object, and the others convert their missing receiver to an object, which raises
  a \<^verbatim>\<open>TypeError\<close>.\<close>

definition call_member :: "string \<Rightarrow> string \<Rightarrow> error + js_value" where
  "call_member name key =
     (if name = ''toString'' then Inr (JString ''[object Undefined]'')
      else if name = ''constructor'' then Inr (JObject key)
      else if name = ''isPrototypeOf'' then Inr (JBoolean False)
      else Inl (Thrown ''TypeError''))"

text \<open>\<^verbatim>\<open>obj[key] = value\<close> for a string \<^verbatim>\<open>value\<close>. On \<^verbatim>\<open>process.env\<close> the name and
  the value reach \<^verbatim>\<open>setenv\<close> as C strings, which end at the first NUL character, and
  \<^verbatim>\<open>setenv\<close> refuses an empty name and a name with \<^verbatim>\<open>=\<close>; the refusal is silent. On a
  plain object the assignment creates or updates an own property, except that
  \<^verbatim>\<open>__proto__\<close>, when it is not an own property, is the inherited setter, which ignores a
  string.\<close>

definition cstr :: "string \<Rightarrow> string" where
  "cstr s = takeWhile (\<lambda>c. c \<noteq> CHR 0x00) s"

definition env_name :: "string \<Rightarrow> bool" where
  "env_name key = (key \<noteq> [] \<and> CHR ''='' \<notin> set key \<and> CHR 0x00 \<notin> set key)"

fun assign :: "ref \<Rightarrow> store \<Rightarrow> string \<Rightarrow> string \<Rightarrow> store" where
  "assign ProcessEnv s key v =
     (if env_name (cstr key) then s(cstr key \<mapsto> cstr v) else s)"
| "assign (Obj n) s key v =
     (if key = ''__proto__''
      then (case s key of None \<Rightarrow> s | Some old \<Rightarrow> s(key \<mapsto> v))
      else s(key \<mapsto> v))"

subsection \<open>The closure of \<^verbatim>\<open>createTypedEnv\<close>\<close>

text \<open>\<^verbatim>\<open>const { lazy, fallback, log, env = process.env } = options ?? {}\<close>: the store of
  the handle is the object passed as \<^verbatim>\<open>env\<close>, and \<^verbatim>\<open>process.env\<close> itself (not a
  copy) when none is passed.\<close>

definition env_ref :: "options \<Rightarrow> ref" where
  "env_ref opts = (case env opts of None \<Rightarrow> ProcessEnv | Some r \<Rightarrow> r)"

text \<open>\<^verbatim>\<open>if (lazy)\<close>: \<^verbatim>\<open>undefined\<close> and \<^verbatim>\<open>false\<close> are falsy.\<close>

definition is_lazy :: "options \<Rightarrow> bool" where
  "is_lazy opts = (lazy opts = Some True)"

text \<open>
\<^verbatim>\<open>
  const logger = (message: string) => {
    const nodeEnv = env?.NODE_ENV;
    if (!log) return;
    if (typeof log === 'boolean') {
      console.warn(message);
    } else if (typeof log === 'object' && nodeEnv && nodeEnv in log
               && log[nodeEnv as keyof typeof log]) {
      console.warn(message);
    }
  };
\<close>
  \<^verbatim>\<open>NODE_ENV\<close> is not a member of \<^verbatim>\<open>Object.prototype\<close>, so \<^verbatim>\<open>nodeEnv\<close> is an own
  string of the store or \<^verbatim>\<open>undefined\<close>. An inherited member found in \<^verbatim>\<open>log\<close> is
  truthy.
\<close>

definition logger :: "options \<Rightarrow> heap \<Rightarrow> string \<Rightarrow> event list" where
  "logger opts h msg =
     (let nodeEnv = h (env_ref opts) ''NODE_ENV'' in
      case log opts of
        None \<Rightarrow> []
      | Some (LogBoolean b) \<Rightarrow> (if b then [Warn msg] else [])
      | Some (LogEnvs envs) \<Rightarrow>
          (case nodeEnv of
             None \<Rightarrow> []
           | Some name \<Rightarrow>
               (if name \<noteq> []
                   \<and> (case index_envs envs (Some name) of
                         Own b \<Rightarrow> b
                       | Inherited member \<Rightarrow> True
                       | Missing \<Rightarrow> False)
                then [Warn msg] else [])))"

text \<open>
\<^verbatim>\<open>
  const getFallbackValue = (fallback: Fallback | undefined, key: string) => {
    if (typeof fallback === 'string') return fallback;
    if (typeof fallback === 'function') return fallback(key);
    if (typeof fallback === 'object') {
      if ('env' in fallback && typeof fallback.env === 'object') {
        const fallbackEnv = fallback.env[process.env.NODE_ENV as keyof typeof fallback.env];
        return getFallbackValue(fallbackEnv, key);
      }
      if (key in fallback) {
        const fallbackValue = fallback[key as keyof typeof fallback] as Record<string, string>;
        return getFallbackValue(fallbackValue, key);
      }
    }
    throw new Error(`Invalid fallback value: ${fallback}`);
  };
\<close>
  The argument is what the options give (\<open>Given\<close>), or a member of
  \<^verbatim>\<open>Object.prototype\<close> that an index into a \<^verbatim>\<open>NodeEnvs\<close> object or into a record has
  found (\<open>Member\<close>). The template \<^verbatim>\<open>${fallback}\<close> prints \<^verbatim>\<open>undefined\<close> as
  \<^verbatim>\<open>undefined\<close> and an object as \<^verbatim>\<open>[object Object]\<close>. A record fallback owning a key
  \<^verbatim>\<open>env\<close> holds a string there, and \<^verbatim>\<open>env\<close> is not inherited, so a record goes to the
  \<^verbatim>\<open>key in fallback\<close> branch. The member \<^verbatim>\<open>__proto__\<close> is the object
  \<^verbatim>\<open>Object.prototype\<close>: its properties are the members, and its own \<^verbatim>\<open>__proto__\<close> is
  \<^verbatim>\<open>null\<close>, on which \<^verbatim>\<open>'env' in fallback\<close> raises a \<^verbatim>\<open>TypeError\<close>. Every other
  member is a function, called with the key.
\<close>

datatype walked = Given "fallback option" | Member string

fun rank :: "walked \<Rightarrow> nat" where
  "rank (Given (Some (PerEnv envs))) = 3"
| "rank (Given (Some (Plain v))) = (case v of FRecord m \<Rightarrow> 2 | _ \<Rightarrow> 0)"
| "rank (Given None) = 0"
| "rank (Member name) = (if name = ''__proto__'' then 1 else 0)"

function getFallbackValue ::
  "heap \<Rightarrow> walked \<Rightarrow> string \<Rightarrow> (error + js_value) \<times> heap \<times> event list" where
  "getFallbackValue h (Given (Some (Plain (FString s)))) key = (Inr (JString s), h, [])"
| "getFallbackValue h (Given (Some (Plain (FFunction f)))) key =
     (case f key h of
        (Inl e, h') \<Rightarrow> (Inl e, h', [FallbackCall key])
      | (Inr s, h') \<Rightarrow> (Inr (JString s), h', [FallbackCall key]))"
| "getFallbackValue h (Given (Some (PerEnv envs))) key =
     (case index_envs envs (h ProcessEnv ''NODE_ENV'') of
        Own v \<Rightarrow> getFallbackValue h (Given (Some (Plain v))) key
      | Inherited name \<Rightarrow> getFallbackValue h (Member name) key
      | Missing \<Rightarrow> getFallbackValue h (Given None) key)"
| "getFallbackValue h (Given (Some (Plain (FRecord m)))) key =
     (case m key of
        Some v \<Rightarrow> getFallbackValue h (Given (Some (Plain (FString v)))) key
      | None \<Rightarrow>
          if inherited key then getFallbackValue h (Member key) key
          else (Inl (InvalidFallbackValue ''[object Object]''), h, []))"
| "getFallbackValue h (Given None) key = (Inl (InvalidFallbackValue ''undefined''), h, [])"
| "getFallbackValue h (Member name) key =
     (if name = ''__proto__'' then
        (if key = ''__proto__'' then (Inl (Thrown ''TypeError''), h, [])
         else if inherited key then getFallbackValue h (Member key) key
         else (Inl (InvalidFallbackValue ''[object Object]''), h, []))
      else (call_member name key, h, []))"
  by pat_completeness auto
termination
proof (relation "measure (\<lambda>(h, w, key). rank w)")
  show "wf (measure (\<lambda>(h, w, key). rank w))"
    by simp
next
  fix h :: heap and envs :: "fallback_value node_envs" and key :: string
    and v :: fallback_value
  show "((h, Given (Some (Plain v)), key), (h, Given (Some (PerEnv envs)), key))
          \<in> measure (\<lambda>(h, w, key). rank w)"
    by (simp split: fallback_value.split)
next
  fix h :: heap and envs :: "fallback_value node_envs" and key :: string and name :: string
  show "((h, Member name, key), (h, Given (Some (PerEnv envs)), key))
          \<in> measure (\<lambda>(h, w, key). rank w)"
    by simp
next
  fix h :: heap and envs :: "fallback_value node_envs" and key :: string
  show "((h, Given None, key), (h, Given (Some (PerEnv envs)), key))
          \<in> measure (\<lambda>(h, w, key). rank w)"
    by simp
next
  fix h :: heap and m :: store and key :: string and v :: string
  show "((h, Given (Some (Plain (FString v))), key), (h, Given (Some (Plain (FRecord m))), key))
          \<in> measure (\<lambda>(h, w, key). rank w)"
    by simp
next
  fix h :: heap and m :: store and key :: string
  show "((h, Member key, key), (h, Given (Some (Plain (FRecord m))), key))
          \<in> measure (\<lambda>(h, w, key). rank w)"
    by simp
next
  fix h :: heap and name :: string and key :: string
  assume "name = ''__proto__''" and "key \<noteq> ''__proto__''"
  then show "((h, Member key, key), (h, Member name, key))
          \<in> measure (\<lambda>(h, w, key). rank w)"
    by simp
qed

text \<open>\<^verbatim>\<open>!fallback\<close>: \<^verbatim>\<open>undefined\<close> and the empty string are falsy, an object, a
  function and a non-empty string are not.\<close>

fun falsy :: "fallback option \<Rightarrow> bool" where
  "falsy None = True"
| "falsy (Some (Plain (FString s))) = (s = [])"
| "falsy (Some fb) = False"

text \<open>
\<^verbatim>\<open>
  const getEnvValue = (key: string): string => {
    if (key in env) return env[key]!;
    if (!fallback) {
      logger(`Environment variable ${key} not found`);
      throw new Error(`Environment variable ${key} not found`);
    }
    const fallbackValue = getFallbackValue(fallback, key);
    if (fallbackValue) {
      logger(`Environment variable ${key} not found, using fallback: ${fallbackValue}`);
      return fallbackValue;
    }
    logger(`Invalid fallback value for environment variable ${key}`);
    throw new Error(`Invalid fallback value for environment variable ${key}`);
  };
\<close>
  An exception thrown inside \<^verbatim>\<open>getFallbackValue\<close> leaves \<^verbatim>\<open>getEnvValue\<close> at once. The
  logger runs after the fallback walk, on the heap the walk has left.
\<close>

definition getEnvValue ::
  "options \<Rightarrow> heap \<Rightarrow> string \<Rightarrow> (error + js_value) \<times> heap \<times> event list" where
  "getEnvValue opts h key =
     (if has_property (h (env_ref opts)) key
      then (Inr (read_property (h (env_ref opts)) key), h, [])
      else if falsy (fallback opts)
      then (Inl (NotFound key), h, logger opts h (message (NotFound key)))
      else
        (case getFallbackValue h (Given (fallback opts)) key of
           (Inl e, h', evs) \<Rightarrow> (Inl e, h', evs)
         | (Inr fallbackValue, h', evs) \<Rightarrow>
             if truthy fallbackValue
             then (Inr fallbackValue, h',
                   evs @ logger opts h'
                     (''Environment variable '' @ key @ '' not found, using fallback: ''
                        @ template fallbackValue))
             else (Inl (InvalidFallback key), h',
                   evs @ logger opts h' (message (InvalidFallback key)))))"

text \<open>\<^verbatim>\<open>const setEnvValue = (key: string, value: string) => { env[key] = value; }\<close>\<close>

definition setEnvValue :: "options \<Rightarrow> string \<Rightarrow> string \<Rightarrow> heap \<Rightarrow> heap" where
  "setEnvValue opts key v h =
     h(env_ref opts := assign (env_ref opts) (h (env_ref opts)) key v)"

text \<open>
  The \<^verbatim>\<open>get\<close> trap of the proxy. In lazy mode a property read yields the closure
\<^verbatim>\<open>
  (value?: string) => {
    if (value !== undefined) { setEnvValue(prop, value); }
    return getEnvValue(prop);
  }
\<close>
  which is \<open>accessor opts prop\<close>; otherwise it yields \<^verbatim>\<open>getEnvValue(prop)\<close>.
\<close>

definition accessor ::
  "options \<Rightarrow> string \<Rightarrow> string option \<Rightarrow> heap \<Rightarrow> (error + js_value) \<times> heap \<times> event list" where
  "accessor opts prop arg h =
     getEnvValue opts (case arg of None \<Rightarrow> h | Some v \<Rightarrow> setEnvValue opts prop v h) prop"

datatype prop_value =
    Value js_value
  | Accessor "string option \<Rightarrow> heap \<Rightarrow> (error + js_value) \<times> heap \<times> event list"

definition get :: "options \<Rightarrow> string \<Rightarrow> heap \<Rightarrow> (error + prop_value) \<times> heap \<times> event list" where
  "get opts prop h =
     (if is_lazy opts then (Inr (Accessor (accessor opts prop)), h, [])
      else
        (case getEnvValue opts h prop of
           (Inl e, h', evs) \<Rightarrow> (Inl e, h', evs)
         | (Inr v, h', evs) \<Rightarrow> (Inr (Value v), h', evs)))"

text \<open>
  The \<^verbatim>\<open>set\<close> trap of the proxy.
\<^verbatim>\<open>
  set(target, prop: string, value: any) {
    if (!lazy) {
      if (typeof value !== 'string') { throw new Error(...must be strings...); }
      setEnvValue(prop, value);
      return true;
    }
    throw new Error(...via assignment...);
  }
\<close>
  Past the \<^verbatim>\<open>typeof\<close> test the value is a string, so the last case below is never
  reached.
\<close>

definition set_trap :: "options \<Rightarrow> string \<Rightarrow> js_value \<Rightarrow> heap \<Rightarrow> (error + bool) \<times> heap" where
  "set_trap opts prop val h =
     (if \<not> is_lazy opts then
        (if typeof val \<noteq> ''string'' then (Inl (TypeCheck prop), h)
         else
           (case val of
              JString s \<Rightarrow> (Inr True, setEnvValue opts prop s h)
            | _ \<Rightarrow> (Inl (TypeCheck prop), h)))
      else (Inl (InvalidAccessMode prop), h))"

subsection \<open>Observations\<close>

text \<open>\<^verbatim>\<open>createTypedEnv()\<close> with no argument: \<^verbatim>\<open>options ?? {}\<close> leaves every option
  \<^verbatim>\<open>undefined\<close>.\<close>

definition no_options :: options where
  "no_options = \<lparr>env = None, lazy = None, fallback = None, log = None\<rparr>"

text \<open>The keys a fallback function was called with, and the messages sent to
  \<^verbatim>\<open>console.warn\<close>, in order.\<close>

fun fallback_calls :: "event list \<Rightarrow> string list" where
  "fallback_calls [] = []"
| "fallback_calls (FallbackCall key # evs) = key # fallback_calls evs"
| "fallback_calls (Warn msg # evs) = fallback_calls evs"

fun warnings :: "event list \<Rightarrow> string list" where
  "warnings [] = []"
| "warnings (Warn msg # evs) = msg # warnings evs"
| "warnings (FallbackCall key # evs) = warnings evs"

text \<open>The fallback functions of a configuration.\<close>

fun callbacks_of :: "fallback_value option \<Rightarrow> callback list" where
  "callbacks_of (Some (FFunction f)) = [f]"
| "callbacks_of other = []"

fun callbacks :: "fallback option \<Rightarrow> callback list" where
  "callbacks None = []"
| "callbacks (Some (Plain v)) = callbacks_of (Some v)"
| "callbacks (Some (PerEnv envs)) =
     callbacks_of (development envs) @ callbacks_of (test envs) @ callbacks_of (production envs)"

text \<open>The names for which reads of a store are modelled, and the assignments that the
  statements below follow: over \<^verbatim>\<open>process.env\<close> a well-formed variable name and a value
  without a NUL character, and over every store a key other than \<^verbatim>\<open>__proto__\<close>.\<close>

fun well_named :: "ref \<Rightarrow> string \<Rightarrow> bool" where
  "well_named ProcessEnv key = env_name key"
| "well_named (Obj n) key = True"

fun takes :: "ref \<Rightarrow> string \<Rightarrow> string \<Rightarrow> bool" where
  "takes ProcessEnv key v =
     (env_name key \<and> key \<noteq> ''__proto__'' \<and> CHR 0x00 \<notin> set v)"
| "takes (Obj n) key v = (key \<noteq> ''__proto__'')"

section \<open>Properties\<close>

subsection \<open>Auxiliary facts\<close>

lemma typeof_string_iff: "typeof val = ''string'' \<longleftrightarrow> (\<exists>s. val = JString s)"
  by (cases val) simp_all

lemma fallback_calls_append: "fallback_calls (xs @ ys) = fallback_calls xs @ fallback_calls ys"
  by (induction xs rule: fallback_calls.induct) simp_all

lemma warnings_append: "warnings (xs @ ys) = warnings xs @ warnings ys"
  by (induction xs rule: warnings.induct) simp_all

lemma logger_cases: "logger opts h msg = [] \<or> logger opts h msg = [Warn msg]"
  by (simp add: logger_def split: option.split log_policy.split)

lemma fallback_calls_logger: "fallback_calls (logger opts h msg) = []"
  using logger_cases [of opts h msg] by auto

lemma logger_on: "log opts = Some (LogBoolean True) \<Longrightarrow> logger opts h msg = [Warn msg]"
  by (simp add: logger_def)

lemma logger_off:
  "log opts = None \<or> log opts = Some (LogBoolean False) \<Longrightarrow> logger opts h msg = []"
  by (auto simp add: logger_def)

lemma getEnvValue_hit:
  "h (env_ref opts) key = Some v \<Longrightarrow> getEnvValue opts h key = (Inr (JString v), h, [])"
  by (simp add: getEnvValue_def has_property_def read_property_def)

lemma cstr_id: "CHR 0x00 \<notin> set s \<Longrightarrow> cstr s = s"
  by (auto simp add: cstr_def takeWhile_eq_all_conv)

lemma assign_takes: "takes r key v \<Longrightarrow> assign r s key v = s(key \<mapsto> v)"
  by (cases r) (auto simp add: cstr_id env_name_def)

lemma setEnvValue_takes:
  "takes (env_ref opts) key v \<Longrightarrow>
   setEnvValue opts key v h = h(env_ref opts := (h (env_ref opts))(key \<mapsto> v))"
  by (simp add: setEnvValue_def assign_takes)

text \<open>The fallback walk itself logs nothing, and it changes the heap only through a
  fallback function.\<close>

lemma warnings_getFallbackValue: "warnings (snd (snd (getFallbackValue h w key))) = []"
  by (induction h w key rule: getFallbackValue.induct)
    (simp_all split: option.split looked.split prod.split sum.split)

lemma heap_getFallbackValue_Member: "fst (snd (getFallbackValue h (Member name) key)) = h"
  by (induction h "Member name" key arbitrary: name rule: getFallbackValue.induct) simp

lemma own_field_callbacks:
  "own_field envs name = Some v \<Longrightarrow>
   set (callbacks_of (Some v)) \<subseteq> set (callbacks (Some (PerEnv envs)))"
  by (auto split: if_splits)

lemma heap_getFallbackValue_value:
  assumes "\<forall>f \<in> set (callbacks_of (Some v)). snd (f key h) = h"
  shows "fst (snd (getFallbackValue h (Given (Some (Plain v))) key)) = h"
proof (cases v)
  case (FString s)
  then show ?thesis by simp
next
  case (FRecord m)
  then show ?thesis
    by (simp add: heap_getFallbackValue_Member split: option.split)
next
  case (FFunction f)
  with assms have "snd (f key h) = h" by simp
  with FFunction show ?thesis
    by (cases "f key h") (auto split: sum.split)
qed

lemma heap_getFallbackValue:
  assumes "\<forall>f \<in> set (callbacks fb). snd (f key h) = h"
  shows "fst (snd (getFallbackValue h (Given fb) key)) = h"
proof (cases fb)
  case None
  then show ?thesis by simp
next
  case (Some given)
  show ?thesis
  proof (cases given)
    case (Plain v)
    with Some assms show ?thesis
      by (simp add: heap_getFallbackValue_value)
  next
    case (PerEnv envs)
    show ?thesis
    proof (cases "index_envs envs (h ProcessEnv ''NODE_ENV'')")
      case (Own v)
      then obtain name where "own_field envs name = Some v"
        by (cases "h ProcessEnv ''NODE_ENV''") (auto split: option.splits if_splits)
      then have "set (callbacks_of (Some v)) \<subseteq> set (callbacks fb)"
        using own_field_callbacks [of envs name v] Some PerEnv by simp
      with assms have "\<forall>f \<in> set (callbacks_of (Some v)). snd (f key h) = h"
        by blast
      then show ?thesis
        using Some PerEnv Own by (simp add: heap_getFallbackValue_value)
    next
      case (Inherited name)
      with Some PerEnv show ?thesis
        by (simp add: heap_getFallbackValue_Member)
    next
      case Missing
      with Some PerEnv show ?thesis by simp
    qed
  qed
qed

lemma heap_getEnvValue:
  assumes "\<forall>f \<in> set (callbacks (fallback opts)). snd (f key h) = h"
  shows "fst (snd (getEnvValue opts h key)) = h"
  using heap_getFallbackValue [OF assms]
  by (cases "getFallbackValue h (Given (fallback opts)) key")
    (auto simp add: getEnvValue_def split: sum.split)

text \<open>A resolution of an absent key that does not end by an exception thrown inside the
  walk is logged once under the policy \<^verbatim>\<open>true\<close>, and no resolution is logged when the
  policy is absent or \<^verbatim>\<open>false\<close>.\<close>

lemma logged_once_unless_walk_throws:
  assumes "\<not> has_property (h (env_ref opts)) key"
    and "well_named (env_ref opts) key"
    and "log opts = Some (LogBoolean True)"
    and "falsy (fallback opts)
         \<or> (\<exists>v. fst (getFallbackValue h (Given (fallback opts)) key) = Inr v)"
  shows "length (warnings (snd (snd (getEnvValue opts h key)))) = 1"
  using assms warnings_getFallbackValue [of h "Given (fallback opts)" key]
  by (auto simp add: getEnvValue_def logger_on warnings_append split: prod.split sum.split)

lemma never_logged_when_off:
  assumes "log opts = None \<or> log opts = Some (LogBoolean False)"
  shows "warnings (snd (snd (getEnvValue opts h key))) = []"
  using assms warnings_getFallbackValue [of h "Given (fallback opts)" key]
  by (auto simp add: getEnvValue_def logger_def warnings_append
      split: prod.split sum.split option.split)

subsection \<open>Hit precedence\<close>

text \<open>
  C2. A key present in the store of the handle is read eagerly as exactly the stored
  string, the empty string included; the store is left as it was, no fallback function is
  called and nothing is logged, whatever the fallback and log options are.
\<close>

theorem C2_hit_precedence:
  assumes "\<not> is_lazy opts" and "h (env_ref opts) key = Some v"
  shows "get opts key h = (Inr (Value (JString v)), h, [])"
  using assms by (simp add: get_def getEnvValue_hit)

text \<open>C2 at a key stored with the empty string, under a literal fallback and logging
  switched on.\<close>

theorem C2_hit_precedence_witness:
  "\<not> is_lazy (no_options\<lparr>fallback := Some (Plain (FString ''fallback_value'')),
                           log := Some (LogBoolean True)\<rparr>)
   \<and> ((\<lambda>r. Map.empty)(ProcessEnv := [''EMPTY'' \<mapsto> '''']))
        (env_ref (no_options\<lparr>fallback := Some (Plain (FString ''fallback_value'')),
                             log := Some (LogBoolean True)\<rparr>)) ''EMPTY'' = Some ''''
   \<and> get (no_options\<lparr>fallback := Some (Plain (FString ''fallback_value'')),
                      log := Some (LogBoolean True)\<rparr>)
        ''EMPTY'' ((\<lambda>r. Map.empty)(ProcessEnv := [''EMPTY'' \<mapsto> '''']))
      = (Inr (Value (JString '''')),
         (\<lambda>r. Map.empty)(ProcessEnv := [''EMPTY'' \<mapsto> '''']), [])"
  using C2_hit_precedence
    [of "no_options\<lparr>fallback := Some (Plain (FString ''fallback_value'')),
                     log := Some (LogBoolean True)\<rparr>"
        "(\<lambda>r. Map.empty)(ProcessEnv := [''EMPTY'' \<mapsto> ''''])" "''EMPTY''" "''''"]
  by (simp add: no_options_def is_lazy_def env_ref_def)

subsection \<open>The fallback walk\<close>

text \<open>
  In the statements below a key is absent from the store when \<^verbatim>\<open>key in env\<close> is false:
  the store neither owns it nor inherits it from \<^verbatim>\<open>Object.prototype\<close>. Over
  \<^verbatim>\<open>process.env\<close> the key is a well-formed variable name (\<open>well_named\<close>), the names for
  which the read of \<^verbatim>\<open>process.env\<close> is modelled.

  C5 as stated (a literal fallback is returned for every absent key, the empty literal
  included) fails at the empty literal: \<^verbatim>\<open>!fallback\<close> holds for it, and the read
  fails with the not-found error.
\<close>

theorem C5_empty_literal_counterexample:
  "\<not> has_property
       (((\<lambda>r. Map.empty) :: heap)
          (env_ref (no_options\<lparr>fallback := Some (Plain (FString ''''))\<rparr>))) ''MISSING_VAR''
   \<and> fst (getEnvValue (no_options\<lparr>fallback := Some (Plain (FString ''''))\<rparr>)
             (\<lambda>r. Map.empty) ''MISSING_VAR'')
       = Inl (NotFound ''MISSING_VAR'')
   \<and> fst (getEnvValue (no_options\<lparr>fallback := Some (Plain (FString ''''))\<rparr>)
             (\<lambda>r. Map.empty) ''MISSING_VAR'')
       \<noteq> Inr (JString '''')"
  by (simp add: getEnvValue_def no_options_def env_ref_def has_property_def inherited_def
      object_prototype_def)

text \<open>
  C5, amended. For every key absent from the store and every non-empty literal fallback,
  resolution returns that literal, the same for every absent key.
\<close>

theorem C5_literal_fallback:
  assumes "\<not> has_property (h (env_ref opts)) key"
    and "well_named (env_ref opts) key"
    and "fallback opts = Some (Plain (FString s))"
    and "s \<noteq> []"
  shows "fst (getEnvValue opts h key) = Inr (JString s)"
  using assms by (simp add: getEnvValue_def)

text \<open>C5 at the literal \<^verbatim>\<open>fallback_value\<close> of the test suite.\<close>

theorem C5_literal_fallback_witness:
  "\<not> has_property
       (((\<lambda>r. Map.empty)(ProcessEnv := [''TEST_VAR'' \<mapsto> ''test_value'']))
          (env_ref (no_options\<lparr>fallback := Some (Plain (FString ''fallback_value''))\<rparr>)))
       ''MISSING_VAR''
   \<and> well_named (env_ref (no_options\<lparr>fallback := Some (Plain (FString ''fallback_value''))\<rparr>))
       ''MISSING_VAR''
   \<and> fallback (no_options\<lparr>fallback := Some (Plain (FString ''fallback_value''))\<rparr>)
       = Some (Plain (FString ''fallback_value''))
   \<and> ''fallback_value'' \<noteq> []
   \<and> fst (getEnvValue (no_options\<lparr>fallback := Some (Plain (FString ''fallback_value''))\<rparr>)
             ((\<lambda>r. Map.empty)(ProcessEnv := [''TEST_VAR'' \<mapsto> ''test_value'']))
             ''MISSING_VAR'') = Inr (JString ''fallback_value'')"
  using C5_literal_fallback
    [of "(\<lambda>r. Map.empty)(ProcessEnv := [''TEST_VAR'' \<mapsto> ''test_value''])"
        "no_options\<lparr>fallback := Some (Plain (FString ''fallback_value''))\<rparr>"
        "''MISSING_VAR''" "''fallback_value''"]
  by (simp add: no_options_def env_ref_def has_property_def inherited_def
      object_prototype_def env_name_def)

text \<open>
  C6 as stated (a function fallback's result is returned, for every string-returning
  function) fails at the function that returns the empty string: \<^verbatim>\<open>if (fallbackValue)\<close>
  rejects its result, and the read fails with the invalid-fallback error.
\<close>

theorem C6_empty_result_counterexample:
  "\<not> has_property
       (((\<lambda>r. Map.empty) :: heap)
          (env_ref (no_options\<lparr>fallback := Some (Plain (FFunction (\<lambda>k h. (Inr '''', h))))\<rparr>)))
       ''MISSING_VAR''
   \<and> fst (getEnvValue (no_options\<lparr>fallback := Some (Plain (FFunction (\<lambda>k h. (Inr '''', h))))\<rparr>)
             (\<lambda>r. Map.empty) ''MISSING_VAR'')
       = Inl (InvalidFallback ''MISSING_VAR'')
   \<and> fst (getEnvValue (no_options\<lparr>fallback := Some (Plain (FFunction (\<lambda>k h. (Inr '''', h))))\<rparr>)
             (\<lambda>r. Map.empty) ''MISSING_VAR'')
       \<noteq> Inr (JString '''')"
  by (simp add: getEnvValue_def no_options_def env_ref_def has_property_def inherited_def
      object_prototype_def)

text \<open>
  C6, amended. For every key absent from the store and every function fallback whose call
  with the key returns a string that is not empty, resolution calls the function once,
  with the key, and returns that string.
\<close>

theorem C6_function_fallback:
  assumes "\<not> has_property (h (env_ref opts)) key"
    and "well_named (env_ref opts) key"
    and "fallback opts = Some (Plain (FFunction f))"
    and "fst (f key h) = Inr s"
    and "s \<noteq> []"
  shows "fallback_calls (snd (snd (getEnvValue opts h key))) = [key]
         \<and> fst (getEnvValue opts h key) = Inr (JString s)"
  using assms
  by (cases "f key h") (simp add: getEnvValue_def fallback_calls_logger fallback_calls_append)

text \<open>C6 at the function \<^verbatim>\<open>(key) => `${key}_fallback`\<close> of the test suite.\<close>

theorem C6_function_fallback_witness:
  "\<not> has_property
       (((\<lambda>r. Map.empty)(ProcessEnv := [''TEST_VAR'' \<mapsto> ''test_value'']))
          (env_ref (no_options\<lparr>fallback :=
             Some (Plain (FFunction (\<lambda>k h. (Inr (k @ ''_fallback''), h))))\<rparr>)))
       ''MISSING_VAR''
   \<and> well_named (env_ref (no_options\<lparr>fallback :=
             Some (Plain (FFunction (\<lambda>k h. (Inr (k @ ''_fallback''), h))))\<rparr>)) ''MISSING_VAR''
   \<and> fst ((\<lambda>k h. (Inr (k @ ''_fallback''), h)) ''MISSING_VAR''
            ((\<lambda>r. Map.empty)(ProcessEnv := [''TEST_VAR'' \<mapsto> ''test_value''])))
       = (Inr ''MISSING_VAR_fallback'' :: error + string)
   \<and> ''MISSING_VAR_fallback'' \<noteq> []
   \<and> fallback_calls (snd (snd (getEnvValue
         (no_options\<lparr>fallback := Some (Plain (FFunction (\<lambda>k h. (Inr (k @ ''_fallback''), h))))\<rparr>)
         ((\<lambda>r. Map.empty)(ProcessEnv := [''TEST_VAR'' \<mapsto> ''test_value'']))
         ''MISSING_VAR''))) = [''MISSING_VAR'']
   \<and> fst (getEnvValue
         (no_options\<lparr>fallback := Some (Plain (FFunction (\<lambda>k h. (Inr (k @ ''_fallback''), h))))\<rparr>)
         ((\<lambda>r. Map.empty)(ProcessEnv := [''TEST_VAR'' \<mapsto> ''test_value'']))
         ''MISSING_VAR'') = Inr (JString ''MISSING_VAR_fallback'')"
  using C6_function_fallback
    [of "(\<lambda>r. Map.empty)(ProcessEnv := [''TEST_VAR'' \<mapsto> ''test_value''])"
        "no_options\<lparr>fallback := Some (Plain (FFunction (\<lambda>k h. (Inr (k @ ''_fallback''), h))))\<rparr>"
        "''MISSING_VAR''" "\<lambda>k h. (Inr (k @ ''_fallback''), h)" "''MISSING_VAR_fallback''"]
  by (simp add: no_options_def env_ref_def has_property_def inherited_def
      object_prototype_def env_name_def)



text \<open>
  C4 as stated (a mode-scoped fallback with no entry for the current mode ends in the
  not-found failure, not in an invalid-fallback error) fails: with mode \<^verbatim>\<open>staging\<close>
  and an entry for \<^verbatim>\<open>development\<close> only, the walk recurses on \<^verbatim>\<open>undefined\<close> and
  throws \<^verbatim>\<open>Invalid fallback value: undefined\<close>.
\<close>

theorem C4_missing_mode_entry_counterexample:
  "\<not> has_property
       (((\<lambda>r. Map.empty)(ProcessEnv := [''NODE_ENV'' \<mapsto> ''staging'']))
          (env_ref (no_options\<lparr>fallback := Some (PerEnv \<lparr>development =
             Some (FString ''dev_fallback''), test = None, production = None\<rparr>)\<rparr>)))
       ''MISSING_VAR''
   \<and> index_envs \<lparr>development = Some (FString ''dev_fallback''), test = None, production = None\<rparr>
        (((\<lambda>r. Map.empty)(ProcessEnv := [''NODE_ENV'' \<mapsto> ''staging'']))
          (env_ref (no_options\<lparr>fallback := Some (PerEnv \<lparr>development =
             Some (FString ''dev_fallback''), test = None, production = None\<rparr>)\<rparr>))
          ''NODE_ENV'') = Missing
   \<and> fst (getEnvValue
        (no_options\<lparr>fallback := Some (PerEnv \<lparr>development = Some (FString ''dev_fallback''),
          test = None, production = None\<rparr>)\<rparr>)
        ((\<lambda>r. Map.empty)(ProcessEnv := [''NODE_ENV'' \<mapsto> ''staging'']))
        ''MISSING_VAR'') = Inl (InvalidFallbackValue ''undefined'')
   \<and> fst (getEnvValue
        (no_options\<lparr>fallback := Some (PerEnv \<lparr>development = Some (FString ''dev_fallback''),
          test = None, production = None\<rparr>)\<rparr>)
        ((\<lambda>r. Map.empty)(ProcessEnv := [''NODE_ENV'' \<mapsto> ''staging'']))
        ''MISSING_VAR'') \<noteq> Inl (NotFound ''MISSING_VAR'')"
  by (simp add: getEnvValue_def no_options_def env_ref_def has_property_def inherited_def
      object_prototype_def)

text \<open>
  C4, amended. For every lookup of an absent key under a mode-scoped fallback whose mode
  mapping has no property, own or inherited from \<^verbatim>\<open>Object.prototype\<close>, named by the
  store's current mode (the mode is unrecognised, or the field is missing), the read fails
  with the error \<^verbatim>\<open>Invalid fallback value: undefined\<close> thrown by the fallback walk, and
  not with the not-found error. The statement is for a store whose \<^verbatim>\<open>NODE_ENV\<close> field
  agrees with the one of \<^verbatim>\<open>process.env\<close>, as it does when the handle is built over
  \<^verbatim>\<open>process.env\<close> itself.
\<close>

theorem C4_missing_mode_entry_invalid_fallback:
  assumes "\<not> has_property (h (env_ref opts)) key"
    and "well_named (env_ref opts) key"
    and "fallback opts = Some (PerEnv envs)"
    and "h ProcessEnv ''NODE_ENV'' = h (env_ref opts) ''NODE_ENV''"
    and "index_envs envs (h (env_ref opts) ''NODE_ENV'') = Missing"
  shows "fst (getEnvValue opts h key) = Inl (InvalidFallbackValue ''undefined'')
         \<and> fst (getEnvValue opts h key) \<noteq> Inl (NotFound key)"
  using assms by (simp add: getEnvValue_def)

text \<open>C4 at a store without a \<^verbatim>\<open>NODE_ENV\<close> field.\<close>

theorem C4_missing_mode_entry_invalid_fallback_witness:
  "\<not> has_property
       (((\<lambda>r. Map.empty)(ProcessEnv := [''TEST_VAR'' \<mapsto> ''test_value'']))
          (env_ref (no_options\<lparr>fallback := Some (PerEnv \<lparr>development =
             Some (FString ''dev_fallback''), test = None,
             production = Some (FString ''prod_fallback'')\<rparr>)\<rparr>)))
       ''MISSING_VAR''
   \<and> well_named (env_ref (no_options\<lparr>fallback := Some (PerEnv \<lparr>development =
             Some (FString ''dev_fallback''), test = None,
             production = Some (FString ''prod_fallback'')\<rparr>)\<rparr>)) ''MISSING_VAR''
   \<and> fallback (no_options\<lparr>fallback := Some (PerEnv \<lparr>development = Some (FString ''dev_fallback''),
          test = None, production = Some (FString ''prod_fallback'')\<rparr>)\<rparr>)
       = Some (PerEnv \<lparr>development = Some (FString ''dev_fallback''),
          test = None, production = Some (FString ''prod_fallback'')\<rparr>)
   \<and> index_envs \<lparr>development = Some (FString ''dev_fallback''), test = None,
                  production = Some (FString ''prod_fallback'')\<rparr>
        (((\<lambda>r. Map.empty)(ProcessEnv := [''TEST_VAR'' \<mapsto> ''test_value'']))
          (env_ref (no_options\<lparr>fallback := Some (PerEnv \<lparr>development =
             Some (FString ''dev_fallback''), test = None,
             production = Some (FString ''prod_fallback'')\<rparr>)\<rparr>)) ''NODE_ENV'') = Missing
   \<and> fst (getEnvValue
        (no_options\<lparr>fallback := Some (PerEnv \<lparr>development = Some (FString ''dev_fallback''),
          test = None, production = Some (FString ''prod_fallback'')\<rparr>)\<rparr>)
        ((\<lambda>r. Map.empty)(ProcessEnv := [''TEST_VAR'' \<mapsto> ''test_value'']))
        ''MISSING_VAR'') = Inl (InvalidFallbackValue ''undefined'')"
  using C4_missing_mode_entry_invalid_fallback
    [of "(\<lambda>r. Map.empty)(ProcessEnv := [''TEST_VAR'' \<mapsto> ''test_value''])"
        "no_options\<lparr>fallback := Some (PerEnv \<lparr>development = Some (FString ''dev_fallback''),
          test = None, production = Some (FString ''prod_fallback'')\<rparr>)\<rparr>"
        "''MISSING_VAR''"
        "\<lparr>development = Some (FString ''dev_fallback''),
          test = None, production = Some (FString ''prod_fallback'')\<rparr>"]
  by (simp add: no_options_def env_ref_def has_property_def inherited_def
      object_prototype_def env_name_def)

text \<open>
  C1 says that the mode selecting the per-mode entry is read from the store given at
  construction. \<^verbatim>\<open>getFallbackValue\<close> reads \<^verbatim>\<open>process.env.NODE_ENV\<close> instead (while
  \<^verbatim>\<open>logger\<close>, beside it, reads \<^verbatim>\<open>env?.NODE_ENV\<close>). Over a custom store whose mode
  is \<^verbatim>\<open>production\<close>, and then \<^verbatim>\<open>test\<close>, with \<^verbatim>\<open>process.env.NODE_ENV\<close> equal to
  \<^verbatim>\<open>development\<close>, both reads take the \<^verbatim>\<open>development\<close> entry.
\<close>

theorem C1_custom_store_mode_ignored:
  "get (no_options\<lparr>env := Some (Obj 0),
          fallback := Some (PerEnv \<lparr>development = Some (FString ''dev_fallback''),
                                   test = Some (FString ''test_fallback''),
                                   production = Some (FString ''prod_fallback'')\<rparr>)\<rparr>)
       ''MISSING_VAR''
       ((\<lambda>r. Map.empty)(ProcessEnv := [''NODE_ENV'' \<mapsto> ''development''],
                         Obj 0 := [''NODE_ENV'' \<mapsto> ''production'']))
   = (Inr (Value (JString ''dev_fallback'')),
      (\<lambda>r. Map.empty)(ProcessEnv := [''NODE_ENV'' \<mapsto> ''development''],
                        Obj 0 := [''NODE_ENV'' \<mapsto> ''production'']), [])
  \<and> get (no_options\<lparr>env := Some (Obj 0),
          fallback := Some (PerEnv \<lparr>development = Some (FString ''dev_fallback''),
                                   test = Some (FString ''test_fallback''),
                                   production = Some (FString ''prod_fallback'')\<rparr>)\<rparr>)
       ''MISSING_VAR''
       ((\<lambda>r. Map.empty)(ProcessEnv := [''NODE_ENV'' \<mapsto> ''development''],
                         Obj 0 := [''NODE_ENV'' \<mapsto> ''test'']))
   = (Inr (Value (JString ''dev_fallback'')),
      (\<lambda>r. Map.empty)(ProcessEnv := [''NODE_ENV'' \<mapsto> ''development''],
                        Obj 0 := [''NODE_ENV'' \<mapsto> ''test'']), [])"
  by (simp add: get_def getEnvValue_def no_options_def is_lazy_def env_ref_def logger_def
      has_property_def inherited_def object_prototype_def)

subsection \<open>Logging\<close>

text \<open>
  C3 says that under the log policy \<^verbatim>\<open>true\<close> every failed resolution is logged once.
  An error thrown inside \<^verbatim>\<open>getFallbackValue\<close> leaves \<^verbatim>\<open>getEnvValue\<close> before any call
  of \<^verbatim>\<open>logger\<close>: with a record fallback that lacks the key, the read fails and nothing
  is logged. (\<open>logger_on\<close> and \<open>logger_off\<close> above give what one call of \<^verbatim>\<open>logger\<close> does
  under the policies \<^verbatim>\<open>true\<close>, \<^verbatim>\<open>false\<close> and absent, \<open>logged_once_unless_walk_throws\<close>
  the resolutions that are logged once.)
\<close>

theorem C3_thrown_fallback_not_logged:
  "log (no_options\<lparr>fallback := Some (Plain (FRecord [''OTHER_VAR'' \<mapsto> ''other''])),
                    log := Some (LogBoolean True)\<rparr>) = Some (LogBoolean True)
   \<and> get (no_options\<lparr>fallback := Some (Plain (FRecord [''OTHER_VAR'' \<mapsto> ''other''])),
                    log := Some (LogBoolean True)\<rparr>)
       ''MISSING_VAR''
       ((\<lambda>r. Map.empty)(ProcessEnv := [''NODE_ENV'' \<mapsto> ''development'']))
   = (Inl (InvalidFallbackValue ''[object Object]''),
      (\<lambda>r. Map.empty)(ProcessEnv := [''NODE_ENV'' \<mapsto> ''development'']), [])"
  by (simp add: get_def getEnvValue_def no_options_def is_lazy_def env_ref_def logger_def
      has_property_def inherited_def object_prototype_def)

subsection \<open>Writes\<close>

text \<open>
  C7. An eager write of a value that is not a string fails with the type-check error and
  leaves the heap as it was: the key keeps its value, or stays absent.
\<close>

theorem C7_non_string_write_rejected:
  assumes "\<not> is_lazy opts" and "typeof val \<noteq> ''string''"
  shows "set_trap opts prop val h = (Inl (TypeCheck prop), h)"
  using assms by (simp add: set_trap_def)

text \<open>C7 at the assignment \<^verbatim>\<open>env.NEW_VAR = 123\<close> of the test suite, over a store that
  holds the key and over one that does not.\<close>

theorem C7_non_string_write_rejected_witness:
  "\<not> is_lazy no_options \<and> typeof (JNumber 123) \<noteq> ''string''
   \<and> set_trap no_options ''NEW_VAR'' (JNumber 123)
        ((\<lambda>r. Map.empty)(ProcessEnv := [''NEW_VAR'' \<mapsto> ''old_value'']))
      = (Inl (TypeCheck ''NEW_VAR''),
         (\<lambda>r. Map.empty)(ProcessEnv := [''NEW_VAR'' \<mapsto> ''old_value'']))
   \<and> set_trap no_options ''NEW_VAR'' (JNumber 123) (\<lambda>r. Map.empty)
      = (Inl (TypeCheck ''NEW_VAR''), (\<lambda>r. Map.empty))"
  using C7_non_string_write_rejected
      [of no_options "JNumber 123" "''NEW_VAR''"
          "(\<lambda>r. Map.empty)(ProcessEnv := [''NEW_VAR'' \<mapsto> ''old_value''])"]
    C7_non_string_write_rejected
      [of no_options "JNumber 123" "''NEW_VAR''" "\<lambda>r. Map.empty"]
  by (simp add: no_options_def is_lazy_def)

text \<open>
  C8 as stated (the round trip holds for every key and every string) fails at the key
  \<^verbatim>\<open>__proto__\<close> over a plain object that does not own it: the assignment succeeds and
  changes nothing, and the read that follows yields the inherited member.
\<close>

theorem C8_proto_key_counterexample:
  "\<not> is_lazy (no_options\<lparr>env := Some (Obj 0)\<rparr>)
   \<and> set_trap (no_options\<lparr>env := Some (Obj 0)\<rparr>) ''__proto__'' (JString ''v'') (\<lambda>r. Map.empty)
       = (Inr True, (\<lambda>r. Map.empty))
   \<and> ((\<lambda>r. Map.empty) :: heap) (env_ref (no_options\<lparr>env := Some (Obj 0)\<rparr>)) ''__proto__'' = None
   \<and> get (no_options\<lparr>env := Some (Obj 0)\<rparr>) ''__proto__'' (\<lambda>r. Map.empty)
       = (Inr (Value (JMember ''__proto__'')), (\<lambda>r. Map.empty), [])
   \<and> fst (get (no_options\<lparr>env := Some (Obj 0)\<rparr>) ''__proto__'' (\<lambda>r. Map.empty))
       \<noteq> Inr (Value (JString ''v''))"
  by (simp add: set_trap_def get_def getEnvValue_def setEnvValue_def no_options_def
      is_lazy_def env_ref_def has_property_def read_property_def inherited_def
      object_prototype_def fun_eq_iff)

text \<open>
  C8, amended. The round trip holds for every key other than \<^verbatim>\<open>__proto__\<close> and every
  string, where over \<^verbatim>\<open>process.env\<close> the key is a well-formed variable name and the
  string has no NUL character (\<open>takes\<close>). In eager mode the assignment of \<open>v\<close> to \<open>K\<close> succeeds, the store then
  holds \<open>v\<close> at \<open>K\<close>, and the next read of \<open>K\<close> returns \<open>v\<close>. In lazy mode the property read
  yields the accessor; called with \<open>v\<close> it stores \<open>v\<close> at \<open>K\<close> and returns \<open>v\<close>, and a later
  call without an argument returns \<open>v\<close> again.
\<close>

theorem C8_write_then_read:
  assumes "takes (env_ref opts) K v"
  shows "(\<not> is_lazy opts \<longrightarrow>
      set_trap opts K (JString v) h = (Inr True, setEnvValue opts K v h)
    \<and> get opts K (setEnvValue opts K v h)
        = (Inr (Value (JString v)), setEnvValue opts K v h, [])
    \<and> setEnvValue opts K v h (env_ref opts) K = Some v)
  \<and> (is_lazy opts \<longrightarrow>
      get opts K h = (Inr (Accessor (accessor opts K)), h, [])
    \<and> accessor opts K (Some v) h = (Inr (JString v), setEnvValue opts K v h, [])
    \<and> setEnvValue opts K v h (env_ref opts) K = Some v
    \<and> accessor opts K None (setEnvValue opts K v h)
        = (Inr (JString v), setEnvValue opts K v h, []))"
proof -
  have stored: "setEnvValue opts K v h (env_ref opts) K = Some v"
    using assms by (simp add: setEnvValue_takes)
  show ?thesis
    using stored getEnvValue_hit [of "setEnvValue opts K v h" opts K v]
    by (simp add: set_trap_def get_def accessor_def)
qed

text \<open>C8 at \<^verbatim>\<open>NEW_VAR\<close> and \<^verbatim>\<open>new_value\<close> over \<^verbatim>\<open>process.env\<close>, eager and lazy.\<close>

theorem C8_write_then_read_witness:
  "(takes (env_ref no_options) ''NEW_VAR'' ''new_value''
    \<and> \<not> is_lazy no_options
    \<and> set_trap no_options ''NEW_VAR'' (JString ''new_value'') (\<lambda>r. Map.empty)
        = (Inr True, (\<lambda>r. Map.empty)(ProcessEnv := [''NEW_VAR'' \<mapsto> ''new_value'']))
    \<and> get no_options ''NEW_VAR'' ((\<lambda>r. Map.empty)(ProcessEnv := [''NEW_VAR'' \<mapsto> ''new_value'']))
        = (Inr (Value (JString ''new_value'')),
           (\<lambda>r. Map.empty)(ProcessEnv := [''NEW_VAR'' \<mapsto> ''new_value'']), []))
  \<and> (takes (env_ref (no_options\<lparr>lazy := Some True\<rparr>)) ''NEW_VAR'' ''new_value''
    \<and> is_lazy (no_options\<lparr>lazy := Some True\<rparr>)
    \<and> accessor (no_options\<lparr>lazy := Some True\<rparr>) ''NEW_VAR'' (Some ''new_value'') (\<lambda>r. Map.empty)
        = (Inr (JString ''new_value''),
           (\<lambda>r. Map.empty)(ProcessEnv := [''NEW_VAR'' \<mapsto> ''new_value'']), [])
    \<and> accessor (no_options\<lparr>lazy := Some True\<rparr>) ''NEW_VAR'' None
          ((\<lambda>r. Map.empty)(ProcessEnv := [''NEW_VAR'' \<mapsto> ''new_value'']))
        = (Inr (JString ''new_value''),
           (\<lambda>r. Map.empty)(ProcessEnv := [''NEW_VAR'' \<mapsto> ''new_value'']), []))"
  using C8_write_then_read [of no_options "''NEW_VAR''" "''new_value''" "\<lambda>r. Map.empty"]
    C8_write_then_read
      [of "no_options\<lparr>lazy := Some True\<rparr>" "''NEW_VAR''" "''new_value''" "\<lambda>r. Map.empty"]
  by (simp add: no_options_def is_lazy_def setEnvValue_def env_ref_def env_name_def cstr_def)

subsection \<open>Reads and the heap\<close>

text \<open>
  C9 as stated (every read leaves the store unchanged, the fallback walk included) fails
  when the fallback function writes to the store. With the fallback
  \<^verbatim>\<open>(key) => { process.env[key] = 'cached'; return 'cached'; }\<close> the eager read of the
  absent \<^verbatim>\<open>MISSING_VAR\<close> returns \<^verbatim>\<open>cached\<close> and leaves \<^verbatim>\<open>MISSING_VAR\<close> in the store.
\<close>

theorem C9_writing_fallback_counterexample:
  "\<not> is_lazy (no_options\<lparr>fallback := Some (Plain (FFunction
        (\<lambda>k h. (Inr ''cached'', h(ProcessEnv := (h ProcessEnv)(k \<mapsto> ''cached''))))))\<rparr>)
   \<and> ((\<lambda>r. Map.empty) :: heap) ProcessEnv ''MISSING_VAR'' = None
   \<and> fst (get (no_options\<lparr>fallback := Some (Plain (FFunction
        (\<lambda>k h. (Inr ''cached'', h(ProcessEnv := (h ProcessEnv)(k \<mapsto> ''cached''))))))\<rparr>)
        ''MISSING_VAR'' (\<lambda>r. Map.empty)) = Inr (Value (JString ''cached''))
   \<and> fst (snd (get (no_options\<lparr>fallback := Some (Plain (FFunction
        (\<lambda>k h. (Inr ''cached'', h(ProcessEnv := (h ProcessEnv)(k \<mapsto> ''cached''))))))\<rparr>)
        ''MISSING_VAR'' (\<lambda>r. Map.empty))) ProcessEnv ''MISSING_VAR'' = Some ''cached''"
  by (simp add: get_def getEnvValue_def no_options_def is_lazy_def env_ref_def
      has_property_def inherited_def object_prototype_def)

text \<open>
  C9, amended. When the fallback functions of the configuration, called with the key,
  leave the heap as it is, an eager property read, a lazy property read (which only builds
  the accessor) and a call of the accessor without an argument leave the heap as it is,
  whatever the outcome: a stored value, an inherited member, a fallback value or an error.
  The library itself writes to no store on the way.
\<close>

theorem C9_reads_leave_store:
  assumes "\<forall>f \<in> set (callbacks (fallback opts)). snd (f prop h) = h"
  shows "fst (snd (get opts prop h)) = h \<and> fst (snd (accessor opts prop None h)) = h"
  using heap_getEnvValue [OF assms]
  by (cases "getEnvValue opts h prop") (auto simp add: get_def accessor_def split: sum.split)

text \<open>C9 at the function \<^verbatim>\<open>(key) => `${key}_fallback`\<close> of the test suite, which writes
  nothing.\<close>

theorem C9_reads_leave_store_witness:
  "callbacks (fallback (no_options\<lparr>fallback :=
       Some (Plain (FFunction (\<lambda>k h. (Inr (k @ ''_fallback''), h))))\<rparr>))
     = [\<lambda>k h. (Inr (k @ ''_fallback''), h)]
   \<and> snd ((\<lambda>k h. (Inr (k @ ''_fallback'') :: error + string, h)) ''MISSING_VAR''
            ((\<lambda>r. Map.empty)(ProcessEnv := [''TEST_VAR'' \<mapsto> ''test_value''])))
       = (\<lambda>r. Map.empty)(ProcessEnv := [''TEST_VAR'' \<mapsto> ''test_value''])
   \<and> fst (snd (get (no_options\<lparr>fallback :=
         Some (Plain (FFunction (\<lambda>k h. (Inr (k @ ''_fallback''), h))))\<rparr>) ''MISSING_VAR''
         ((\<lambda>r. Map.empty)(ProcessEnv := [''TEST_VAR'' \<mapsto> ''test_value'']))))
       = (\<lambda>r. Map.empty)(ProcessEnv := [''TEST_VAR'' \<mapsto> ''test_value''])
   \<and> fst (snd (accessor (no_options\<lparr>fallback :=
         Some (Plain (FFunction (\<lambda>k h. (Inr (k @ ''_fallback''), h))))\<rparr>) ''MISSING_VAR'' None
         ((\<lambda>r. Map.empty)(ProcessEnv := [''TEST_VAR'' \<mapsto> ''test_value'']))))
       = (\<lambda>r. Map.empty)(ProcessEnv := [''TEST_VAR'' \<mapsto> ''test_value''])"
  using C9_reads_leave_store
    [of "no_options\<lparr>fallback :=
           Some (Plain (FFunction (\<lambda>k h. (Inr (k @ ''_fallback''), h))))\<rparr>"
        "''MISSING_VAR''"
        "(\<lambda>r. Map.empty)(ProcessEnv := [''TEST_VAR'' \<mapsto> ''test_value''])"]
  by (simp add: no_options_def)

end
